theory Spec2Isabelle
  imports Main
begin

section \<open>Python values, dictionaries and exceptions\<close>

text \<open>
  The helpers of \<^verbatim>\<open>assembly/asm.py\<close> and \<^verbatim>\<open>flasik/functions.py\<close> work on
  Python values. A dictionary with string keys is a map: \<open>d k\<close> looks a key up,
  \<open>d(k \<mapsto> v)\<close> is \<^verbatim>\<open>d[k] = v\<close>, \<open>d ++ e\<close> is \<^verbatim>\<open>d.update(e)\<close>, \<open>dom d\<close> is the set of
  keys, and two dictionaries are equal when they hold the same items, as in Python.
  \<open>PFunc m n\<close> is the function object named \<open>n\<close> of module \<open>m\<close>.
\<close>

datatype pyval =
    PNone
  | PBool bool
  | PInt int
  | PStr string
  | PTuple "pyval list"
  | PList "pyval list"
  | PDict "string \<Rightarrow> pyval option"
  | PFunc string string

type_synonym pydict = "string \<Rightarrow> pyval option"

datatype pyexn =
    TypeError
  | ValueError string
  | NameError string
  | OverflowError
  | BadSignature
  | BadTimeSignature
  | BadPayload
  | SignatureExpired
  | Raised string

text \<open>\<^verbatim>\<open>d.get(k, default)\<close>\<close>

definition dict_get :: "pydict \<Rightarrow> string \<Rightarrow> pyval \<Rightarrow> pyval" where
  "dict_get d k dflt = (case d k of None \<Rightarrow> dflt | Some v \<Rightarrow> v)"

section \<open>Flash data in the session\<close>

text \<open>
  \<^verbatim>\<open>
  def set_flash_data(data):
      session["_flash_data"] = data

  def get_flashed_data():
      return session.pop("_flash_data", None)
  \<close>
  The session is a dictionary; both functions are modelled with the session passed in
  and handed back.
\<close>

definition set_flash_data :: "pyval \<Rightarrow> pydict \<Rightarrow> pydict" where
  "set_flash_data data session = session(''_flash_data'' \<mapsto> data)"

definition get_flashed_data :: "pydict \<Rightarrow> pyval \<times> pydict" where
  "get_flashed_data session =
     (dict_get session ''_flash_data'' PNone, session(''_flash_data'' := None))"

text \<open>\<open>n\<close> calls of \<open>get_flashed_data\<close> in a row: the values returned and the session left.\<close>

fun get_flashed_data_times :: "nat \<Rightarrow> pydict \<Rightarrow> pyval list \<times> pydict" where
  "get_flashed_data_times 0 session = ([], session)"
| "get_flashed_data_times (Suc n) session =
     (let (v, session') = get_flashed_data session;
          (vs, session'') = get_flashed_data_times n session'
      in (v # vs, session''))"

section \<open>Uploading a file with a configured profile\<close>

text \<open>
  \<^verbatim>\<open>
  def upload_file(_props_key, file, **kw):
      kwargs = {}
      if _props_key is not None:
          conf = config.get("STORAGE_UPLOAD_FILE_PROPS")
          if not conf:
              raise ValueError("Missing STORAGE_UPLOAD_FILE_PROPS in config")
          if _props_key not in conf:
              raise ValueError("Missing '%s' in config STORAGE_UPLOAD_FILE_PROPS" % _props_key)
          kwargs.update(conf.get(_props_key))
      kwargs.update(kw)

      return signals.upload_file(lambda: storage.upload(file, **kwargs))
  \<close>
  The configuration entry \<^verbatim>\<open>STORAGE_UPLOAD_FILE_PROPS\<close>, when present, is a dictionary
  from profile names to dictionaries of properties. \<open>conf\<close> is the value of
  \<^verbatim>\<open>config.get("STORAGE_UPLOAD_FILE_PROPS")\<close>: \<open>None\<close> when the entry is missing;
  \<^verbatim>\<open>not conf\<close> holds for \<open>None\<close> and for the empty dictionary. \<open>upload_kwargs\<close> is
  the function up to the last statement: the keyword arguments it has collected for
  \<^verbatim>\<open>storage.upload\<close>, or the \<^verbatim>\<open>ValueError\<close> it has raised.

  The last statement reads the global name \<^verbatim>\<open>signals\<close>. Neither
  \<^verbatim>\<open>assembly/asm.py\<close> nor \<^verbatim>\<open>flasik/functions.py\<close> imports or assigns that name, so
  the statement raises \<^verbatim>\<open>NameError\<close> before \<^verbatim>\<open>storage.upload\<close> is reached.
\<close>

definition upload_kwargs ::
  "(string \<Rightarrow> pydict option) option \<Rightarrow> string option \<Rightarrow> pydict \<Rightarrow> pyexn + pydict"
where
  "upload_kwargs conf props_key kw =
     (case props_key of
        None \<Rightarrow> Inr (Map.empty ++ kw)
      | Some key \<Rightarrow>
          (case conf of
             None \<Rightarrow> Inl (ValueError ''Missing STORAGE_UPLOAD_FILE_PROPS in config'')
           | Some c \<Rightarrow>
               if dom c = {} then Inl (ValueError ''Missing STORAGE_UPLOAD_FILE_PROPS in config'')
               else (case c key of
                       None \<Rightarrow>
                         Inl (ValueError (''Missing '' @ [CHR 0x27] @ key @ [CHR 0x27]
                                @ '' in config STORAGE_UPLOAD_FILE_PROPS''))
                     | Some props \<Rightarrow> Inr ((Map.empty ++ props) ++ kw))))"

definition upload_file ::
  "(string \<Rightarrow> pydict option) option \<Rightarrow> string option \<Rightarrow> pyval \<Rightarrow> pydict \<Rightarrow> pyexn + pyval"
where
  "upload_file conf props_key file kw =
     (case upload_kwargs conf props_key kw of
        Inl e \<Rightarrow> Inl e
      | Inr kwargs \<Rightarrow> Inl (NameError ''signals''))"

section \<open>Signals: wrapped callables, observers and the namespace\<close>

subsection \<open>Callables and argument binding\<close>

text \<open>
  A callable as \<^verbatim>\<open>emit_signal\<close> sees it: its \<^verbatim>\<open>__module__\<close> and \<^verbatim>\<open>__name__\<close>, what
  \<^verbatim>\<open>inspect.getargspec\<close> reports (the names of the positional parameters, the names of
  \<^verbatim>\<open>*varargs\<close> and \<^verbatim>\<open>**varkw\<close> when it has them, the default values of the last
  positional parameters), and its body, a function of the local variables the call has
  bound that returns a value or raises.
\<close>

record pyfunc =
  fn_module :: string
  fn_name :: string
  fn_args :: "string list"
  fn_varargs :: "string option"
  fn_varkw :: "string option"
  fn_defaults :: "pyval list"
  fn_body :: "pydict \<Rightarrow> pyexn + pyval"

text \<open>
  \<^verbatim>\<open>inspect.getcallargs(fn, *positional, **named)\<close> of the standard library: the
  dictionary from parameter names to the values a call would bind, or \<^verbatim>\<open>TypeError\<close>
  for an unexpected keyword, a parameter given twice, too many positional values or a
  missing required parameter.
\<close>

definition getcallargs :: "pyfunc \<Rightarrow> pyval list \<Rightarrow> pydict \<Rightarrow> pyexn + pydict" where
  "getcallargs f positional named =
     (let args = fn_args f;
          num_pos = length positional;
          num_args = length args;
          num_defaults = length (fn_defaults f);
          n = min num_pos num_args;
          by_position = map_of (zip (take n args) positional);
          by_default = map_of (zip (drop (num_args - num_defaults) args) (fn_defaults f));
          star = (case fn_varargs f of
                    None \<Rightarrow> Map.empty
                  | Some v \<Rightarrow> [v \<mapsto> PTuple (drop n positional)]);
          starstar = (case fn_varkw f of
                        None \<Rightarrow> Map.empty
                      | Some v \<Rightarrow> [v \<mapsto> PDict (named |` (- set args))])
      in if fn_varkw f = None \<and> \<not> dom named \<subseteq> set args then Inl TypeError
         else if dom named \<inter> set (take n args) \<noteq> {} then Inl TypeError
         else if num_args < num_pos \<and> fn_varargs f = None then Inl TypeError
         else if \<exists>a \<in> set (take (num_args - num_defaults) args).
                   a \<notin> dom by_position \<and> a \<notin> dom named then Inl TypeError
         else Inr (by_default ++ by_position ++ (named |` set args) ++ star ++ starstar))"

text \<open>The call \<^verbatim>\<open>fn(*args, **kwargs)\<close>: Python binds the arguments, then runs the body.\<close>

definition py_call :: "pyfunc \<Rightarrow> pyval list \<Rightarrow> pydict \<Rightarrow> pyexn + pyval" where
  "py_call f args kwargs =
     (case getcallargs f args kwargs of
        Inl e \<Rightarrow> Inl e
      | Inr locals \<Rightarrow> fn_body f locals)"

subsection \<open>The signal library\<close>

text \<open>
  \<^verbatim>\<open>blinker\<close> as the source uses it. A namespace is a dictionary from signal names to
  signals, and a signal holds its receivers. \<^verbatim>\<open>namespace.signal(name)\<close> returns the
  signal of that name and creates it when the namespace has none. \<^verbatim>\<open>connect\<close> adds a
  receiver once. \<^verbatim>\<open>send(*sender, **kwargs)\<close> calls every receiver as
  \<^verbatim>\<open>receiver(sender, **kwargs)\<close>, with \<^verbatim>\<open>sender = None\<close> when no positional value is
  given, and catches nothing. The library leaves the order of the receivers open; the
  model calls them in the order of connection.

  An observer is a receiver: what it does when called is its answer, \<open>None\<close> when it
  returns and \<open>Some e\<close> when it raises \<open>e\<close>. The trace of a run lists each call of an
  observer, with what it was given, and each call of a wrapped callable.
\<close>

record observer =
  obs_id :: string
  obs_run :: "pyval \<Rightarrow> pydict \<Rightarrow> pyexn option"

datatype event =
    Observed string pyval pydict
  | Called string string "pyval list" pydict

datatype ns_ref = GlobalNamespace | UserNamespace nat

type_synonym namespace = "string \<Rightarrow> observer list option"

record world =
  namespaces :: "ns_ref \<Rightarrow> namespace"
  trace :: "event list"

definition signal :: "ns_ref \<Rightarrow> string \<Rightarrow> world \<Rightarrow> world" where
  "signal ns name w =
     (case namespaces w ns name of
        Some rs \<Rightarrow> w
      | None \<Rightarrow> w\<lparr>namespaces := (namespaces w)(ns := (namespaces w ns)(name \<mapsto> []))\<rparr>)"

definition receivers :: "ns_ref \<Rightarrow> string \<Rightarrow> world \<Rightarrow> observer list" where
  "receivers ns name w = (case namespaces w ns name of None \<Rightarrow> [] | Some rs \<Rightarrow> rs)"

definition connect :: "ns_ref \<Rightarrow> string \<Rightarrow> observer \<Rightarrow> world \<Rightarrow> world" where
  "connect ns name r w =
     (if obs_id r \<in> set (map obs_id (receivers ns name w)) then w
      else w\<lparr>namespaces :=
               (namespaces w)(ns := (namespaces w ns)(name \<mapsto> receivers ns name w @ [r]))\<rparr>)"

fun notify :: "observer list \<Rightarrow> pyval \<Rightarrow> pydict \<Rightarrow> event list \<Rightarrow> (pyexn + unit) \<times> event list" where
  "notify [] sender kw tr = (Inr (), tr)"
| "notify (r # rs) sender kw tr =
     (case obs_run r sender kw of
        Some e \<Rightarrow> (Inl e, tr @ [Observed (obs_id r) sender kw])
      | None \<Rightarrow> notify rs sender kw (tr @ [Observed (obs_id r) sender kw]))"

definition signal_send ::
  "ns_ref \<Rightarrow> string \<Rightarrow> pyval option \<Rightarrow> pydict \<Rightarrow> world \<Rightarrow> (pyexn + unit) \<times> world"
where
  "signal_send ns name sender kw w =
     (let w1 = signal ns name w;
          (res, tr) = notify (receivers ns name w1)
                        (case sender of None \<Rightarrow> PNone | Some v \<Rightarrow> v) kw (trace w1)
      in (res, w1\<lparr>trace := tr\<rparr>))"

subsection \<open>\<^verbatim>\<open>emit_signal\<close>\<close>

text \<open>
  \<^verbatim>\<open>
  def emit_signal(sender=None, namespace=None):
      if not namespace:
          namespace = __signals_namespace

      def decorator(fn):
          fname = sender
          if not fname:
              fnargs = inspect.getargspec(fn).args
              fname = fn.__module__
              if 'self' in fnargs or 'cls' in fnargs:
                  caller = inspect.currentframe().f_back
                  fname += "_" + caller.f_code.co_name
              fname += "__" + fn.__name__

          fn.pre = namespace.signal('pre_%s' % fname)
          fn.post = namespace.signal('post_%s' % fname)
          fn.observe = fn.post.connect
          ...
          return wrapper
      return decorator
  \<close>
  A namespace is a dictionary, so \<^verbatim>\<open>not namespace\<close> holds for \<^verbatim>\<open>None\<close> and for a
  namespace without signals. \<open>caller\<close> is the name of the code object that runs the
  decoration, \<^verbatim>\<open>inspect.currentframe().f_back.f_code.co_name\<close>. The wrapper is the
  record of what its closure holds: the callable, \<^verbatim>\<open>fname\<close> and the namespace, with the
  names of the two signals stored as \<^verbatim>\<open>fn.pre\<close> and \<^verbatim>\<open>fn.post\<close>.
\<close>

record wrapped =
  w_fn :: pyfunc
  w_fname :: string
  w_namespace :: ns_ref
  w_pre :: string
  w_post :: string

definition resolve_namespace :: "ns_ref option \<Rightarrow> world \<Rightarrow> ns_ref" where
  "resolve_namespace namespace w =
     (case namespace of
        None \<Rightarrow> GlobalNamespace
      | Some r \<Rightarrow> if dom (namespaces w r) = {} then GlobalNamespace else r)"

definition channel_base :: "string option \<Rightarrow> pyfunc \<Rightarrow> string \<Rightarrow> string" where
  "channel_base sender fn caller =
     (let derived =
            fn_module fn
            @ (if ''self'' \<in> set (fn_args fn) \<or> ''cls'' \<in> set (fn_args fn)
               then ''_'' @ caller else [])
            @ ''__'' @ fn_name fn
      in case sender of
           None \<Rightarrow> derived
         | Some s \<Rightarrow> if s = [] then derived else s)"

definition decorator :: "string option \<Rightarrow> ns_ref \<Rightarrow> pyfunc \<Rightarrow> string \<Rightarrow> world \<Rightarrow> wrapped \<times> world" where
  "decorator sender ns fn caller w =
     (let fname = channel_base sender fn caller;
          w1 = signal ns (''pre_'' @ fname) w;
          w2 = signal ns (''post_'' @ fname) w1
      in (\<lparr>w_fn = fn, w_fname = fname, w_namespace = ns,
           w_pre = ''pre_'' @ fname, w_post = ''post_'' @ fname\<rparr>, w2))"

definition emit_signal ::
  "string option \<Rightarrow> ns_ref option \<Rightarrow> pyfunc \<Rightarrow> string \<Rightarrow> world \<Rightarrow> wrapped \<times> world"
where
  "emit_signal sender namespace fn caller w =
     decorator sender (resolve_namespace namespace w) fn caller w"

text \<open>
  \<^verbatim>\<open>
          def send(action, *a, **kw):
              sig_name = "%s_%s" % (action, fname)
              result = kw.pop("result", None)
              kw.update(inspect.getcallargs(fn, *a, **kw))
              sendkw = {
                  "kwargs": {k: v for k, v in kw.items() if k in kw.keys()},
                  "sender": fn.__name__,
                  "emitter": kw.get('self', kw.get('cls', fn))
              }
              if action == 'post':
                  namespace.signal(sig_name).send(result, **sendkw)
              else:
                  namespace.signal(sig_name).send(**sendkw)
  \<close>
  \<open>send_arguments\<close> is the function up to the last statement: the name of the signal,
  the positional value and the keyword arguments of the library's \<^verbatim>\<open>send\<close>. The wrapper
  calls \<^verbatim>\<open>send('pre', *args, **kwargs)\<close>, so \<open>a\<close> and \<open>kw\<close> are the caller's own
  arguments, and a keyword named \<^verbatim>\<open>action\<close> among them meets the parameter
  \<^verbatim>\<open>action\<close> already bound by position: Python raises \<^verbatim>\<open>TypeError\<close>.
\<close>

definition send_arguments ::
  "wrapped \<Rightarrow> string \<Rightarrow> pyval list \<Rightarrow> pydict \<Rightarrow> pyexn + (string \<times> pyval option \<times> pydict)"
where
  "send_arguments wr action a kw0 =
     (if ''action'' \<in> dom kw0 then Inl TypeError
      else
        let fn = w_fn wr;
            sig_name = action @ ''_'' @ w_fname wr;
            result = dict_get kw0 ''result'' PNone;
            kw1 = kw0(''result'' := None)
        in (case getcallargs fn a kw1 of
              Inl e \<Rightarrow> Inl e
            | Inr callargs \<Rightarrow>
                let kw = kw1 ++ callargs;
                    sendkw = [''kwargs'' \<mapsto> PDict (kw |` dom kw),
                              ''sender'' \<mapsto> PStr (fn_name fn),
                              ''emitter'' \<mapsto>
                                dict_get kw ''self''
                                  (dict_get kw ''cls'' (PFunc (fn_module fn) (fn_name fn)))]
                in if action = ''post'' then Inr (sig_name, Some result, sendkw)
                   else Inr (sig_name, None, sendkw)))"

definition send ::
  "wrapped \<Rightarrow> string \<Rightarrow> pyval list \<Rightarrow> pydict \<Rightarrow> world \<Rightarrow> (pyexn + unit) \<times> world"
where
  "send wr action a kw0 w =
     (case send_arguments wr action a kw0 of
        Inl e \<Rightarrow> (Inl e, w)
      | Inr (sig_name, sender, sendkw) \<Rightarrow>
          signal_send (w_namespace wr) sig_name sender sendkw w)"

text \<open>
  \<^verbatim>\<open>
          @functools.wraps(fn)
          def wrapper(*args, **kwargs):
              send('pre', *args, **kwargs)
              result = fn(*args, **kwargs)
              kwargs["result"] = result
              send('post', *args, **kwargs)
              return result
  \<close>
\<close>

definition wrapper ::
  "wrapped \<Rightarrow> pyval list \<Rightarrow> pydict \<Rightarrow> world \<Rightarrow> (pyexn + pyval) \<times> world"
where
  "wrapper wr args kwargs w =
     (case send wr ''pre'' args kwargs w of
        (Inl e, w1) \<Rightarrow> (Inl e, w1)
      | (Inr u, w1) \<Rightarrow>
          let fn = w_fn wr;
              w2 = w1\<lparr>trace := trace w1 @ [Called (fn_module fn) (fn_name fn) args kwargs]\<rparr>
          in (case py_call fn args kwargs of
                Inl e \<Rightarrow> (Inl e, w2)
              | Inr result \<Rightarrow>
                  (case send wr ''post'' args (kwargs(''result'' \<mapsto> result)) w2 of
                     (Inl e, w3) \<Rightarrow> (Inl e, w3)
                   | (Inr u', w3) \<Rightarrow> (Inr result, w3))))"

subsection \<open>Example callables and observers\<close>

text \<open>
  \<^verbatim>\<open>
  # module pkg.mod
  def foo(a, b): return (a, b)
  def bar(self): return None
  def set_result(result): return result
  def run(action): return action
  def keep(a, **kw): return kw
  def fail(a): raise ValueError("no")
  \<close>
  \<open>quiet i\<close> is an observer that returns normally whatever it is given, \<open>failing i e\<close> one that
  always raises \<open>e\<close>. \<open>decorate_and_connect fn caller p q\<close> starts with no signal at
  all, decorates \<open>fn\<close> with \<^verbatim>\<open>@emit_signal()\<close> in the code object \<open>caller\<close> and connects
  \<open>p\<close> to \<^verbatim>\<open>fn.pre\<close> and \<open>q\<close> to \<^verbatim>\<open>fn.post\<close>. \<open>decorate_twice fn caller1 caller2 q\<close>
  decorates \<open>fn\<close> in \<open>caller1\<close>, connects \<open>q\<close> to \<^verbatim>\<open>fn.post\<close> and decorates \<open>fn\<close>
  again in \<open>caller2\<close>.
\<close>

definition example_foo :: pyfunc where
  "example_foo =
     \<lparr>fn_module = ''pkg.mod'', fn_name = ''foo'', fn_args = [''a'', ''b''],
      fn_varargs = None, fn_varkw = None, fn_defaults = [],
      fn_body = (\<lambda>locals. Inr (PTuple [dict_get locals ''a'' PNone, dict_get locals ''b'' PNone]))\<rparr>"

definition example_bar :: pyfunc where
  "example_bar =
     \<lparr>fn_module = ''pkg.mod'', fn_name = ''bar'', fn_args = [''self''],
      fn_varargs = None, fn_varkw = None, fn_defaults = [],
      fn_body = (\<lambda>locals. Inr PNone)\<rparr>"

definition example_set_result :: pyfunc where
  "example_set_result =
     \<lparr>fn_module = ''pkg.mod'', fn_name = ''set_result'', fn_args = [''result''],
      fn_varargs = None, fn_varkw = None, fn_defaults = [],
      fn_body = (\<lambda>locals. Inr (dict_get locals ''result'' PNone))\<rparr>"

definition example_run :: pyfunc where
  "example_run =
     \<lparr>fn_module = ''pkg.mod'', fn_name = ''run'', fn_args = [''action''],
      fn_varargs = None, fn_varkw = None, fn_defaults = [],
      fn_body = (\<lambda>locals. Inr (dict_get locals ''action'' PNone))\<rparr>"

definition example_keep :: pyfunc where
  "example_keep =
     \<lparr>fn_module = ''pkg.mod'', fn_name = ''keep'', fn_args = [''a''],
      fn_varargs = None, fn_varkw = Some ''kw'', fn_defaults = [],
      fn_body = (\<lambda>locals. Inr (dict_get locals ''kw'' PNone))\<rparr>"

definition example_fail :: pyfunc where
  "example_fail =
     \<lparr>fn_module = ''pkg.mod'', fn_name = ''fail'', fn_args = [''a''],
      fn_varargs = None, fn_varkw = None, fn_defaults = [],
      fn_body = (\<lambda>locals. Inl (ValueError ''no''))\<rparr>"

text \<open>
  \<^verbatim>\<open>
  # assembly/asm.py, after the definition of emit_signal
  @emit_signal()
  def upload_file(change):
      return change()
  \<close>
  This second definition binds the module's name \<^verbatim>\<open>upload_file\<close> again, to the
  wrapper of the function of one parameter; \<open>run\<close> stands for calling the value given
  as \<^verbatim>\<open>change\<close>. \<open>asm_upload_file\<close> is what the name \<^verbatim>\<open>upload_file\<close> of the loaded
  module calls, in the world the decoration leaves.
\<close>

definition upload_file_change :: "(pyval \<Rightarrow> pyexn + pyval) \<Rightarrow> pyfunc" where
  "upload_file_change run =
     \<lparr>fn_module = ''assembly.asm'', fn_name = ''upload_file'', fn_args = [''change''],
      fn_varargs = None, fn_varkw = None, fn_defaults = [],
      fn_body = (\<lambda>locals. run (dict_get locals ''change'' PNone))\<rparr>"

definition asm_upload_file ::
  "(pyval \<Rightarrow> pyexn + pyval) \<Rightarrow> pyval list \<Rightarrow> pydict \<Rightarrow> (pyexn + pyval) \<times> world"
where
  "asm_upload_file run args kwargs =
     (let (wr, w) = emit_signal None None (upload_file_change run) ''<module>''
                      \<lparr>namespaces = (\<lambda>r. Map.empty), trace = []\<rparr>
      in wrapper wr args kwargs w)"

definition quiet :: "string \<Rightarrow> observer" where
  "quiet i = \<lparr>obs_id = i, obs_run = (\<lambda>sender kw. None)\<rparr>"

definition failing :: "string \<Rightarrow> pyexn \<Rightarrow> observer" where
  "failing i e = \<lparr>obs_id = i, obs_run = (\<lambda>sender kw. Some e)\<rparr>"

definition no_signals :: world where
  "no_signals = \<lparr>namespaces = (\<lambda>r. Map.empty), trace = []\<rparr>"

definition decorate_and_connect ::
  "pyfunc \<Rightarrow> string \<Rightarrow> observer \<Rightarrow> observer \<Rightarrow> wrapped \<times> world"
where
  "decorate_and_connect fn caller p q =
     (let (wr, w1) = emit_signal None None fn caller no_signals;
          w2 = connect (w_namespace wr) (w_pre wr) p w1;
          w3 = connect (w_namespace wr) (w_post wr) q w2
      in (wr, w3))"


section \<open>Signed tokens\<close>

subsection \<open>Strings\<close>

text \<open>
  \<^verbatim>\<open>s.split(sep)\<close> with a separator of one character: a string with \<open>n\<close> separators
  has \<open>n + 1\<close> segments, empty ones included. \<^verbatim>\<open>s.rsplit(sep, 1)\<close>, used where \<open>s\<close>
  holds the separator, cuts \<open>s\<close> at the last one.
\<close>

fun py_split :: "char \<Rightarrow> string \<Rightarrow> string list" where
  "py_split sep [] = [[]]"
| "py_split sep (c # cs) =
     (if c = sep then [] # py_split sep cs
      else (case py_split sep cs of
              [] \<Rightarrow> [[c]]
            | seg # segs \<Rightarrow> (c # seg) # segs))"

definition py_rsplit1 :: "char \<Rightarrow> string \<Rightarrow> string \<times> string" where
  "py_rsplit1 sep s =
     (rev (tl (dropWhile (\<lambda>c. c \<noteq> sep) (rev s))), rev (takeWhile (\<lambda>c. c \<noteq> sep) (rev s)))"

subsection \<open>The signing library\<close>

text \<open>
  \<^verbatim>\<open>itsdangerous\<close> as the source uses it, with the secret key and the salt of
  \<^verbatim>\<open>__CRYPT\<close> fixed. The parts the source does not define are parameters:
  \<open>dump_payload\<close> and \<open>load_payload\<close> of the URL-safe serializer (JSON, compressed
  when that is shorter, in URL-safe base 64), \<open>get_signature\<close> of the signer (the keyed
  digest of a value in base 64), and the encoding of a timestamp, \<open>int_to_b64\<close> with
  its inverse \<open>b64_to_int\<close>. The signers and serializers over them follow the library:
  \<^verbatim>\<open>Signer.sign\<close> appends the separator and the signature; \<^verbatim>\<open>Signer.unsign\<close> cuts at
  the last separator and compares; \<^verbatim>\<open>TimestampSigner\<close> puts the encoded timestamp
  between the value and the signature.
\<close>

record codec =
  dump_payload :: "pyval \<Rightarrow> string"
  load_payload :: "string \<Rightarrow> pyexn + pyval"
  get_signature :: "string \<Rightarrow> string"
  int_to_b64 :: "int \<Rightarrow> string"
  b64_to_int :: "string \<Rightarrow> int option"


definition Signer_unsign :: "codec \<Rightarrow> string \<Rightarrow> pyexn + string" where
  "Signer_unsign c signed_value =
     (if CHR ''.'' \<notin> set signed_value then Inl BadSignature
      else let (v, sig) = py_rsplit1 CHR ''.'' signed_value
           in if sig = get_signature c v then Inr v else Inl BadSignature)"


definition URLSafeSerializer_loads :: "codec \<Rightarrow> string \<Rightarrow> pyexn + pyval" where
  "URLSafeSerializer_loads c s =
     (case Signer_unsign c s of
        Inl e \<Rightarrow> Inl e
      | Inr v \<Rightarrow> load_payload c v)"

subsection \<open>\<^verbatim>\<open>TimestampSigner2\<close> and \<^verbatim>\<open>URLSafeTimedSerializer2\<close>\<close>

text \<open>
  \<^verbatim>\<open>
  class TimestampSigner2(itsdangerous.TimestampSigner):
      expires_in = 0

      def get_timestamp(self):
          now = datetime.datetime.utcnow()
          expires_in = now + datetime.timedelta(seconds=self.expires_in)
          return int(expires_in.strftime("%s"))

      @staticmethod
      def timestamp_to_datetime(ts):
          return datetime.datetime.fromtimestamp(ts)
  \<close>
  A \<^verbatim>\<open>datetime\<close> without time zone, as \<^verbatim>\<open>utcnow()\<close> returns it, is the number of
  microseconds its calendar reading lies after 1970-01-01 00:00:00; the type holds the
  years 1 to 9999, and adding a \<^verbatim>\<open>timedelta\<close> that leaves them raises
  \<^verbatim>\<open>OverflowError\<close>.

  \<^verbatim>\<open>strftime("%s")\<close> and \<^verbatim>\<open>fromtimestamp\<close> go through the local time zone of the
  process, which is a parameter here: \<open>mktime z\<close> takes the whole seconds of a calendar
  reading, read as local time, to seconds since the epoch; \<open>fromtimestamp z\<close> takes
  seconds since the epoch to the whole seconds of the local calendar reading, or
  raises where the platform cannot represent it. So the number signed into a token is
  the expiry, in whole seconds, read as if the UTC reading were local time, and the
  reader turns it into a local reading that it compares with the UTC clock.
\<close>

record zone =
  mktime :: "int \<Rightarrow> int"
  fromtimestamp :: "int \<Rightarrow> pyexn + int"




definition timestamp_to_datetime :: "zone \<Rightarrow> int \<Rightarrow> pyexn + int" where
  "timestamp_to_datetime z ts =
     (case fromtimestamp z ts of
        Inl e \<Rightarrow> Inl e
      | Inr seconds \<Rightarrow> Inr (seconds * 1000000))"


text \<open>
  \<^verbatim>\<open>TimestampSigner.unsign(value, max_age=None, return_timestamp=True)\<close>: a failed
  signature check is kept until the timestamp has been cut off; without \<^verbatim>\<open>max_age\<close>
  the library checks no age; the timestamp goes through \<^verbatim>\<open>timestamp_to_datetime\<close>
  outside any handler.
\<close>

definition TimestampSigner2_unsign :: "codec \<Rightarrow> zone \<Rightarrow> string \<Rightarrow> pyexn + (string \<times> int)" where
  "TimestampSigner2_unsign c z signed_value =
     (let (sig_error, result) =
            (case Signer_unsign c signed_value of
               Inr v \<Rightarrow> (False, v)
             | Inl e \<Rightarrow>
                 (True, if CHR ''.'' \<in> set signed_value
                        then fst (py_rsplit1 CHR ''.'' signed_value) else []))
      in if CHR ''.'' \<notin> set result
         then (if sig_error then Inl BadSignature else Inl BadTimeSignature)
         else let (v, timestamp) = py_rsplit1 CHR ''.'' result
              in if sig_error then Inl BadTimeSignature
                 else (case b64_to_int c timestamp of
                         None \<Rightarrow> Inl BadTimeSignature
                       | Some ts \<Rightarrow>
                           (case timestamp_to_datetime z ts of
                              Inl e \<Rightarrow> Inl e
                            | Inr t \<Rightarrow> Inr (v, t))))"


definition URLSafeTimedSerializer2_loads :: "codec \<Rightarrow> zone \<Rightarrow> string \<Rightarrow> pyexn + (pyval \<times> int)" where
  "URLSafeTimedSerializer2_loads c z s =
     (case TimestampSigner2_unsign c z s of
        Inl e \<Rightarrow> Inl e
      | Inr (base64d, timestamp) \<Rightarrow>
          (case load_payload c base64d of
             Inl e \<Rightarrow> Inl e
           | Inr payload \<Rightarrow> Inr (payload, timestamp)))"

subsection \<open>\<^verbatim>\<open>sign_data\<close> and \<^verbatim>\<open>unsign_data\<close>\<close>


definition unsign_data :: "codec \<Rightarrow> zone \<Rightarrow> int \<Rightarrow> string \<Rightarrow> pyexn + pyval" where
  "unsign_data c z now token =
     (if length (py_split CHR ''.'' token) = 3 then
        (case URLSafeTimedSerializer2_loads c z token of
           Inl e \<Rightarrow> Inl e
         | Inr (v, timestamp) \<Rightarrow> if timestamp > now then Inr v else Inl SignatureExpired)
      else URLSafeSerializer_loads c token)"


subsection \<open>An example codec and an example time zone\<close>

text \<open>
  A stand-in for the library on two objects. The payload of \<^verbatim>\<open>{"a": 1}\<close> is the text
  \<^verbatim>\<open>eyJhIjoxfQ\<close>, which is its JSON \<^verbatim>\<open>{"a":1}\<close> in base 64, and it is read back as
  that dictionary. The payload of the tuple \<^verbatim>\<open>(1, 2)\<close> is \<^verbatim>\<open>WzEsMl0\<close>, its JSON
  \<^verbatim>\<open>[1,2]\<close> in base 64, which is read back as the list \<^verbatim>\<open>[1, 2]\<close>: JSON has no
  tuples. A payload is led by the dot with which the library marks a compressed
  payload when \<open>compressed\<close> is set; a signature is a text without dots computed from
  the value; a timestamp \<open>n\<close> is written as \<open>n\<close> letters. \<open>example_zone\<close> is a zone four
  hours behind UTC all year.
\<close>

definition example_codec :: "bool \<Rightarrow> codec" where
  "example_codec compressed =
     \<lparr>dump_payload =
        (\<lambda>obj. (if compressed then ''.'' else [])
                @ (case obj of PTuple xs \<Rightarrow> ''WzEsMl0'' | PList xs \<Rightarrow> ''WzEsMl0'' | _ \<Rightarrow> ''eyJhIjoxfQ'')),
      load_payload =
        (\<lambda>s. if s = ''eyJhIjoxfQ'' \<or> s = ''.eyJhIjoxfQ'' then Inr (PDict [''a'' \<mapsto> PInt 1])
              else if s = ''WzEsMl0'' \<or> s = ''.WzEsMl0'' then Inr (PList [PInt 1, PInt 2])
              else Inl BadPayload),
      get_signature = (\<lambda>v. rev (filter (\<lambda>ch. ch \<noteq> CHR ''.'') v)),
      int_to_b64 = (\<lambda>n. replicate (nat n) CHR ''A''),
      b64_to_int = (\<lambda>s. if s = replicate (length s) CHR ''A'' then Some (int (length s)) else None)\<rparr>"

definition example_zone :: zone where
  "example_zone = \<lparr>mktime = (\<lambda>seconds. seconds + 14400), fromtimestamp = (\<lambda>ts. Inr (ts - 14400))\<rparr>"

section \<open>Flash data: read once\<close>

lemma get_flashed_data_unset:
  "''_flash_data'' \<notin> dom s \<Longrightarrow> get_flashed_data s = (PNone, s)"
  by (auto simp: get_flashed_data_def dict_get_def fun_eq_iff split: option.splits)

lemma get_flashed_data_times_unset:
  "''_flash_data'' \<notin> dom s \<Longrightarrow> get_flashed_data_times n s = (replicate n PNone, s)"
  by (induction n) (simp_all add: get_flashed_data_unset)

lemma get_flashed_data_clears:
  "''_flash_data'' \<notin> dom (snd (get_flashed_data s))"
  by (simp add: get_flashed_data_def)

text \<open>
  C9. After \<open>set_flash_data d\<close> the first call of \<open>get_flashed_data\<close> returns \<open>d\<close> and
  each of the \<open>n\<close> calls that follow returns \<open>None\<close>, for every \<open>n\<close>; the entry is gone
  from the session once it has been returned. In a session \<open>s'\<close> that holds no flash
  data, every call returns \<open>None\<close> and leaves the session as it is, so nothing fails.
\<close>

theorem get_flashed_data_pops:
  "fst (get_flashed_data_times (Suc n) (set_flash_data d s)) = d # replicate n PNone
   \<and> ''_flash_data'' \<notin> dom (snd (get_flashed_data (set_flash_data d s)))
   \<and> (''_flash_data'' \<notin> dom s' \<longrightarrow>
        get_flashed_data_times n s' = (replicate n PNone, s'))"
proof -
  obtain s1 where first: "get_flashed_data (set_flash_data d s) = (d, s1)"
    by (simp add: get_flashed_data_def set_flash_data_def dict_get_def)
  have gone: "''_flash_data'' \<notin> dom s1"
    using get_flashed_data_clears [of "set_flash_data d s"] by (simp add: first)
  have rest: "get_flashed_data_times n s1 = (replicate n PNone, s1)"
    using gone by (rule get_flashed_data_times_unset)
  have "get_flashed_data_times (Suc n) (set_flash_data d s) = (d # replicate n PNone, s1)"
    by (simp add: first rest)
  then show ?thesis
    using gone first get_flashed_data_times_unset [of s' n] by simp
qed

theorem get_flashed_data_pops_witness:
  "fst (get_flashed_data_times (Suc (Suc (Suc 0)))
          (set_flash_data (PStr ''saved'') [''user'' \<mapsto> PInt 7]))
     = [PStr ''saved'', PNone, PNone]
   \<and> get_flashed_data_times (Suc (Suc 0)) [''user'' \<mapsto> PInt 7]
       = ([PNone, PNone], [''user'' \<mapsto> PInt 7])"
proof -
  have absent: "''_flash_data'' \<notin> dom [''user'' \<mapsto> PInt 7]"
    by simp
  show ?thesis
    using get_flashed_data_pops [of "Suc (Suc 0)" "PStr ''saved''" "[''user'' \<mapsto> PInt 7]"
        "[''user'' \<mapsto> PInt 7]"] absent
    by simp
qed

section \<open>Signals: dispatch and the wrapper\<close>

lemma notify_all_return:
  "\<forall>r \<in> set rs. obs_run r s kw = None \<Longrightarrow>
     notify rs s kw tr = (Inr (), tr @ map (\<lambda>r. Observed (obs_id r) s kw) rs)"
  by (induction rs arbitrary: tr) simp_all

lemma notify_first_raise:
  "\<forall>r \<in> set before. obs_run r s kw = None \<Longrightarrow> obs_run p s kw = Some e \<Longrightarrow>
     notify (before @ p # after) s kw tr
       = (Inl e, tr @ map (\<lambda>r. Observed (obs_id r) s kw) before @ [Observed (obs_id p) s kw])"
  by (induction before arbitrary: tr) simp_all

lemma receivers_signal [simp]: "receivers ns name (signal ns' name' w) = receivers ns name w"
  by (auto simp: receivers_def signal_def split: option.splits)

lemma trace_signal [simp]: "trace (signal ns name w) = trace w"
  by (simp add: signal_def split: option.splits)

lemma signal_send_all_return:
  assumes "\<forall>r \<in> set (receivers ns name w). obs_run r (case sender of None \<Rightarrow> PNone | Some v \<Rightarrow> v) kw = None"
  shows "signal_send ns name sender kw w
           = (Inr (), (signal ns name w)\<lparr>trace := trace w
                @ map (\<lambda>r. Observed (obs_id r) (case sender of None \<Rightarrow> PNone | Some v \<Rightarrow> v) kw)
                    (receivers ns name w)\<rparr>)"
  using assms by (simp add: signal_send_def notify_all_return)

lemma signal_send_first_raise:
  assumes "receivers ns name w = before @ p # after"
      and "\<forall>r \<in> set before. obs_run r (case sender of None \<Rightarrow> PNone | Some v \<Rightarrow> v) kw = None"
      and "obs_run p (case sender of None \<Rightarrow> PNone | Some v \<Rightarrow> v) kw = Some e"
  shows "signal_send ns name sender kw w
           = (Inl e, (signal ns name w)\<lparr>trace := trace w
                @ map (\<lambda>r. Observed (obs_id r) (case sender of None \<Rightarrow> PNone | Some v \<Rightarrow> v) kw) before
                @ [Observed (obs_id p) (case sender of None \<Rightarrow> PNone | Some v \<Rightarrow> v) kw]\<rparr>)"
  using assms by (simp add: signal_send_def notify_first_raise)

lemma restrict_own_keys: "m |` dom m = m"
  by (rule ext) (auto simp: restrict_map_def dom_def)

lemma restrict_own_keys_add: "(a ++ b) |` (dom b \<union> dom a) = a ++ b"
  using restrict_own_keys [of "a ++ b"] by simp


lemma send_arguments_pre:
  assumes "''action'' \<notin> dom kwargs" and "''result'' \<notin> dom kwargs"
      and "getcallargs (w_fn wr) args kwargs = Inr callargs"
  shows "send_arguments wr ''pre'' args kwargs
           = Inr (''pre_'' @ w_fname wr, None,
                  [''kwargs'' \<mapsto> PDict (kwargs ++ callargs),
                   ''sender'' \<mapsto> PStr (fn_name (w_fn wr)),
                   ''emitter'' \<mapsto> dict_get (kwargs ++ callargs) ''self''
                      (dict_get (kwargs ++ callargs) ''cls''
                         (PFunc (fn_module (w_fn wr)) (fn_name (w_fn wr))))])"
proof -
  have "kwargs(''result'' := None) = kwargs"
    using assms(2) by (auto simp: fun_eq_iff)
  then show ?thesis
    using assms(1,3) by (simp add: send_arguments_def Let_def restrict_own_keys_add dict_get_def)
qed

lemma send_arguments_post:
  assumes "''action'' \<notin> dom kwargs" and "''result'' \<notin> dom kwargs"
      and "getcallargs (w_fn wr) args kwargs = Inr callargs"
  shows "send_arguments wr ''post'' args (kwargs(''result'' \<mapsto> r))
           = Inr (''post_'' @ w_fname wr, Some r,
                  [''kwargs'' \<mapsto> PDict (kwargs ++ callargs),
                   ''sender'' \<mapsto> PStr (fn_name (w_fn wr)),
                   ''emitter'' \<mapsto> dict_get (kwargs ++ callargs) ''self''
                      (dict_get (kwargs ++ callargs) ''cls''
                         (PFunc (fn_module (w_fn wr)) (fn_name (w_fn wr))))])"
proof -
  have "(kwargs(''result'' \<mapsto> r))(''result'' := None) = kwargs"
    using assms(2) by (auto simp: fun_eq_iff)
  then show ?thesis
    using assms(1,3) by (simp add: send_arguments_def Let_def restrict_own_keys_add dict_get_def)
qed

lemma receivers_trace_update [simp]: "receivers ns name (w\<lparr>trace := t\<rparr>) = receivers ns name w"
  by (simp add: receivers_def)

lemma emit_signal_fields:
  assumes "emit_signal sender namespace fn caller w0 = (wr, w1)"
  shows "w_fn wr = fn" and "w_fname wr = channel_base sender fn caller"
    and "w_pre wr = ''pre_'' @ w_fname wr" and "w_post wr = ''post_'' @ w_fname wr"
    and "w_namespace wr = resolve_namespace namespace w0"
  using assms by (auto simp: emit_signal_def decorator_def Let_def)

lemma send_all_return:
  assumes "send_arguments wr action args kw0 = Inr (name, sender, sendkw)"
      and "\<forall>r \<in> set (receivers (w_namespace wr) name w).
             obs_run r (case sender of None \<Rightarrow> PNone | Some v \<Rightarrow> v) sendkw = None"
  shows "send wr action args kw0 w
           = (Inr (), (signal (w_namespace wr) name w)\<lparr>trace := trace w
                @ map (\<lambda>r. Observed (obs_id r) (case sender of None \<Rightarrow> PNone | Some v \<Rightarrow> v) sendkw)
                    (receivers (w_namespace wr) name w)\<rparr>)"
  using assms by (simp add: send_def signal_send_all_return)

lemma send_first_raise:
  assumes "send_arguments wr action args kw0 = Inr (name, sender, sendkw)"
      and "receivers (w_namespace wr) name w = before @ p # after"
      and "\<forall>r \<in> set before. obs_run r (case sender of None \<Rightarrow> PNone | Some v \<Rightarrow> v) sendkw = None"
      and "obs_run p (case sender of None \<Rightarrow> PNone | Some v \<Rightarrow> v) sendkw = Some e"
  shows "send wr action args kw0 w
           = (Inl e, (signal (w_namespace wr) name w)\<lparr>trace := trace w
                @ map (\<lambda>r. Observed (obs_id r) (case sender of None \<Rightarrow> PNone | Some v \<Rightarrow> v) sendkw) before
                @ [Observed (obs_id p) (case sender of None \<Rightarrow> PNone | Some v \<Rightarrow> v) sendkw]\<rparr>)"
  using assms by (simp add: send_def signal_send_first_raise)

lemma py_call_returns: "py_call f args kwargs = Inr r \<Longrightarrow> \<exists>callargs. getcallargs f args kwargs = Inr callargs"
  by (auto simp: py_call_def split: sum.splits)

lemma wrapper_completes:
  assumes pre: "send_arguments wr ''pre'' args kwargs = Inr (pre_name, None, sendkw)"
      and post: "send_arguments wr ''post'' args (kwargs(''result'' \<mapsto> r)) = Inr (post_name, Some r, sendkw)"
      and call: "py_call (w_fn wr) args kwargs = Inr r"
      and ps: "\<forall>x \<in> set (receivers (w_namespace wr) pre_name w). obs_run x PNone sendkw = None"
      and qs: "\<forall>x \<in> set (receivers (w_namespace wr) post_name w). obs_run x r sendkw = None"
  shows "fst (wrapper wr args kwargs w) = Inr r"
    and "trace (snd (wrapper wr args kwargs w)) = trace w
           @ map (\<lambda>x. Observed (obs_id x) PNone sendkw) (receivers (w_namespace wr) pre_name w)
           @ [Called (fn_module (w_fn wr)) (fn_name (w_fn wr)) args kwargs]
           @ map (\<lambda>x. Observed (obs_id x) r sendkw) (receivers (w_namespace wr) post_name w)"
proof -
  let ?ns = "w_namespace wr"
  let ?w1 = "(signal ?ns pre_name w)\<lparr>trace := trace w
                @ map (\<lambda>x. Observed (obs_id x) PNone sendkw) (receivers ?ns pre_name w)\<rparr>"
  let ?w2 = "?w1\<lparr>trace := trace ?w1 @ [Called (fn_module (w_fn wr)) (fn_name (w_fn wr)) args kwargs]\<rparr>"
  have s1: "send wr ''pre'' args kwargs w = (Inr (), ?w1)"
    using send_all_return [OF pre] ps by simp
  have qs2: "\<forall>x \<in> set (receivers ?ns post_name ?w2). obs_run x r sendkw = None"
    using qs by simp
  have s2: "send wr ''post'' args (kwargs(''result'' \<mapsto> r)) ?w2
              = (Inr (), (signal ?ns post_name ?w2)\<lparr>trace := trace ?w2
                   @ map (\<lambda>x. Observed (obs_id x) r sendkw) (receivers ?ns post_name ?w2)\<rparr>)"
    using send_all_return [OF post, of ?w2] qs2 by simp
  have run: "wrapper wr args kwargs w
               = (Inr r, (signal ?ns post_name ?w2)\<lparr>trace := trace ?w2
                   @ map (\<lambda>x. Observed (obs_id x) r sendkw) (receivers ?ns post_name ?w2)\<rparr>)"
    unfolding wrapper_def by (simp only: s1 prod.case sum.case Let_def call s2)
  show "fst (wrapper wr args kwargs w) = Inr r" by (simp only: run fst_conv)
  show "trace (snd (wrapper wr args kwargs w)) = trace w
           @ map (\<lambda>x. Observed (obs_id x) PNone sendkw) (receivers (w_namespace wr) pre_name w)
           @ [Called (fn_module (w_fn wr)) (fn_name (w_fn wr)) args kwargs]
           @ map (\<lambda>x. Observed (obs_id x) r sendkw) (receivers (w_namespace wr) post_name w)"
    by (simp add: run)
qed

lemma decorate_and_connect_wrapped:
  "fst (decorate_and_connect fn caller p q)
     = \<lparr>w_fn = fn, w_fname = channel_base None fn caller, w_namespace = GlobalNamespace,
        w_pre = ''pre_'' @ channel_base None fn caller,
        w_post = ''post_'' @ channel_base None fn caller\<rparr>"
  by (simp add: decorate_and_connect_def emit_signal_def decorator_def resolve_namespace_def Let_def)

lemma decorate_and_connect_receivers:
  "receivers GlobalNamespace (''pre_'' @ channel_base None fn caller)
     (snd (decorate_and_connect fn caller p q)) = [p]"
  "receivers GlobalNamespace (''post_'' @ channel_base None fn caller)
     (snd (decorate_and_connect fn caller p q)) = [q]"
  by (simp_all add: decorate_and_connect_def emit_signal_def decorator_def resolve_namespace_def
      Let_def connect_def receivers_def signal_def no_signals_def)

lemma decorate_and_connect_trace:
  "trace (snd (decorate_and_connect fn caller p q)) = []"
  by (simp add: decorate_and_connect_def emit_signal_def decorator_def resolve_namespace_def
      Let_def connect_def receivers_def signal_def no_signals_def)


lemma emit_signal_fresh:
  "emit_signal None None fn caller no_signals
     = (fst (decorate_and_connect fn caller p q),
        snd (emit_signal None None fn caller no_signals))"
  by (simp add: decorate_and_connect_def emit_signal_def decorator_def resolve_namespace_def Let_def)

lemma py_call_foo: "py_call example_foo [PInt 1] [''b'' \<mapsto> PInt 2] = Inr (PTuple [PInt 1, PInt 2])"
  by (auto simp: py_call_def getcallargs_def example_foo_def Let_def dict_get_def)

lemma send_arguments_pre_shape:
  "send_arguments wr ''pre'' args kwargs = Inr (name, s, sendkw) \<Longrightarrow>
     name = ''pre_'' @ w_fname wr \<and> s = None"
  by (auto simp: send_arguments_def Let_def split: if_splits sum.splits)

lemma getcallargs_foo:
  "getcallargs example_foo [PInt 1] [''b'' \<mapsto> PInt 2] = Inr [''a'' \<mapsto> PInt 1, ''b'' \<mapsto> PInt 2]"
  by (auto simp: getcallargs_def example_foo_def Let_def fun_eq_iff map_add_def restrict_map_def)

lemma foo_delivered: "[''b'' \<mapsto> PInt 2] ++ [''a'' \<mapsto> PInt 1, ''b'' \<mapsto> PInt 2] = [''a'' \<mapsto> PInt 1, ''b'' \<mapsto> PInt 2]"
  by (auto simp: fun_eq_iff map_add_def)

lemma send_arguments_foo:
  "send_arguments (fst (decorate_and_connect example_foo caller p q)) ''pre'' [PInt 1] [''b'' \<mapsto> PInt 2]
     = Inr (''pre_pkg.mod__foo'', None,
            [''kwargs'' \<mapsto> PDict [''a'' \<mapsto> PInt 1, ''b'' \<mapsto> PInt 2],
             ''sender'' \<mapsto> PStr ''foo'',
             ''emitter'' \<mapsto> PFunc ''pkg.mod'' ''foo''])"
proof -
  have "send_arguments (fst (decorate_and_connect example_foo caller p q)) ''pre'' [PInt 1] [''b'' \<mapsto> PInt 2]
     = Inr (''pre_'' @ w_fname (fst (decorate_and_connect example_foo caller p q)), None,
                  [''kwargs'' \<mapsto> PDict ([''b'' \<mapsto> PInt 2] ++ [''a'' \<mapsto> PInt 1, ''b'' \<mapsto> PInt 2]),
                   ''sender'' \<mapsto> PStr (fn_name (w_fn (fst (decorate_and_connect example_foo caller p q)))),
                   ''emitter'' \<mapsto> dict_get ([''b'' \<mapsto> PInt 2] ++ [''a'' \<mapsto> PInt 1, ''b'' \<mapsto> PInt 2]) ''self''
                      (dict_get ([''b'' \<mapsto> PInt 2] ++ [''a'' \<mapsto> PInt 1, ''b'' \<mapsto> PInt 2]) ''cls''
                         (PFunc (fn_module (w_fn (fst (decorate_and_connect example_foo caller p q))))
                                (fn_name (w_fn (fst (decorate_and_connect example_foo caller p q))))))])"
    by (rule send_arguments_pre) (simp_all add: decorate_and_connect_wrapped getcallargs_foo)
  then show ?thesis
    by (simp add: foo_delivered decorate_and_connect_wrapped channel_base_def example_foo_def dict_get_def)
qed

lemma send_arguments_fail:
  "\<exists>sendkw. send_arguments (fst (decorate_and_connect example_fail caller p q)) ''pre'' [PInt 1] Map.empty
     = Inr (''pre_pkg.mod__fail'', None, sendkw)"
  by (simp add: send_arguments_def decorate_and_connect_wrapped getcallargs_def example_fail_def
      channel_base_def Let_def)

lemma getcallargs_covers_keywords:
  assumes "getcallargs f args named = Inr callargs" and "fn_varkw f = None"
  shows "dom named \<subseteq> dom callargs"
proof -
  have sub: "dom named \<subseteq> set (fn_args f)"
    using assms by (auto simp: getcallargs_def Let_def split: if_splits)
  have "callargs = map_of (zip (drop (length (fn_args f) - length (fn_defaults f)) (fn_args f)) (fn_defaults f))
          ++ map_of (zip (take (min (length args) (length (fn_args f))) (fn_args f)) args)
          ++ (named |` set (fn_args f))
          ++ (case fn_varargs f of None \<Rightarrow> Map.empty
              | Some v \<Rightarrow> [v \<mapsto> PTuple (drop (min (length args) (length (fn_args f))) args)])
          ++ Map.empty"
    using assms by (auto simp: getcallargs_def Let_def split: if_splits)
  then have "dom (named |` set (fn_args f)) \<subseteq> dom callargs"
    by auto
  moreover have "dom (named |` set (fn_args f)) = dom named"
    using sub by auto
  ultimately show ?thesis by simp
qed

lemma map_add_covered: "dom a \<subseteq> dom b \<Longrightarrow> a ++ b = b"
  by (rule ext) (auto simp: map_add_def split: option.splits)












lemma receivers_signal_send [simp]:
  "receivers ns' name' (snd (signal_send ns name sender kw w)) = receivers ns' name' w"
  by (simp add: signal_send_def Let_def split: prod.splits)

lemma receivers_send [simp]:
  "receivers ns name (snd (send wr action args kw w)) = receivers ns name w"
  by (simp add: send_def split: sum.splits prod.splits)









text \<open>
  The order of a call. Let \<open>wr\<close> be a wrapper made by \<open>emit_signal\<close> for \<open>fn\<close>, with
  \<open>p\<close> the observer connected to \<^verbatim>\<open>fn.pre\<close> and \<open>q\<close> the observer connected to
  \<^verbatim>\<open>fn.post\<close>. For a call whose keywords are not named \<^verbatim>\<open>action\<close> or \<^verbatim>\<open>result\<close>,
  in which \<open>fn\<close> returns \<open>r\<close> and both observers return, the wrapper returns \<open>r\<close> and
  the run is: \<open>p\<close> once, then \<open>fn\<close> once, then \<open>q\<close> once, with \<open>q\<close> given \<open>r\<close>.
\<close>

lemma wrapper_pre_call_post:
  assumes made: "emit_signal sender namespace fn caller w0 = (wr, w1)"
      and p: "receivers (w_namespace wr) (w_pre wr) w = [p]"
      and q: "receivers (w_namespace wr) (w_post wr) w = [q]"
      and action: "''action'' \<notin> dom kwargs"
      and result: "''result'' \<notin> dom kwargs"
      and f_returns: "py_call fn args kwargs = Inr r"
      and p_returns: "\<forall>kw. obs_run p PNone kw = None"
      and q_returns: "\<forall>kw. obs_run q r kw = None"
  shows "\<exists>sendkw.
           fst (wrapper wr args kwargs w) = Inr r
           \<and> trace (snd (wrapper wr args kwargs w))
               = trace w @ [Observed (obs_id p) PNone sendkw,
                            Called (fn_module fn) (fn_name fn) args kwargs,
                            Observed (obs_id q) r sendkw]"
proof -
  have fn: "w_fn wr = fn" and pre: "w_pre wr = ''pre_'' @ w_fname wr"
    and post: "w_post wr = ''post_'' @ w_fname wr"
    using emit_signal_fields [OF made] by simp_all
  obtain callargs where bound: "getcallargs (w_fn wr) args kwargs = Inr callargs"
    using py_call_returns [OF f_returns] fn by auto
  let ?sendkw = "[''kwargs'' \<mapsto> PDict (kwargs ++ callargs),
                  ''sender'' \<mapsto> PStr (fn_name (w_fn wr)),
                  ''emitter'' \<mapsto> dict_get (kwargs ++ callargs) ''self''
                     (dict_get (kwargs ++ callargs) ''cls''
                        (PFunc (fn_module (w_fn wr)) (fn_name (w_fn wr))))]"
  have a1: "send_arguments wr ''pre'' args kwargs = Inr (w_pre wr, None, ?sendkw)"
    using send_arguments_pre [OF action result bound] pre by simp
  have a2: "send_arguments wr ''post'' args (kwargs(''result'' \<mapsto> r)) = Inr (w_post wr, Some r, ?sendkw)"
    using send_arguments_post [OF action result bound] post by simp
  have call: "py_call (w_fn wr) args kwargs = Inr r"
    using f_returns fn by simp
  have ps: "\<forall>x \<in> set (receivers (w_namespace wr) (w_pre wr) w). obs_run x PNone ?sendkw = None"
    using p p_returns by simp
  have qs: "\<forall>x \<in> set (receivers (w_namespace wr) (w_post wr) w). obs_run x r ?sendkw = None"
    using q q_returns by simp
  have "fst (wrapper wr args kwargs w) = Inr r"
    by (rule wrapper_completes(1) [OF a1 a2 call ps qs])
  moreover have "trace (snd (wrapper wr args kwargs w))
      = trace w @ [Observed (obs_id p) PNone ?sendkw,
                   Called (fn_module fn) (fn_name fn) args kwargs,
                   Observed (obs_id q) r ?sendkw]"
    using wrapper_completes(2) [OF a1 a2 call ps qs] p q fn by simp
  ultimately show ?thesis by blast
qed

lemma wrapper_pre_call_post_foo:
  "\<exists>sendkw.
     fst (wrapper (fst (decorate_and_connect example_foo ''<module>'' (quiet ''p'') (quiet ''q'')))
            [PInt 1] [''b'' \<mapsto> PInt 2]
            (snd (decorate_and_connect example_foo ''<module>'' (quiet ''p'') (quiet ''q''))))
       = Inr (PTuple [PInt 1, PInt 2])
     \<and> trace (snd (wrapper (fst (decorate_and_connect example_foo ''<module>'' (quiet ''p'') (quiet ''q'')))
            [PInt 1] [''b'' \<mapsto> PInt 2]
            (snd (decorate_and_connect example_foo ''<module>'' (quiet ''p'') (quiet ''q'')))))
       = [Observed ''p'' PNone sendkw,
          Called ''pkg.mod'' ''foo'' [PInt 1] [''b'' \<mapsto> PInt 2],
          Observed ''q'' (PTuple [PInt 1, PInt 2]) sendkw]"
proof -
  let ?wr = "fst (decorate_and_connect example_foo ''<module>'' (quiet ''p'') (quiet ''q''))"
  let ?w = "snd (decorate_and_connect example_foo ''<module>'' (quiet ''p'') (quiet ''q''))"
  have p: "receivers (w_namespace ?wr) (w_pre ?wr) ?w = [quiet ''p'']"
    using decorate_and_connect_receivers(1) [of example_foo "''<module>''" "quiet ''p''" "quiet ''q''"]
    by (simp add: decorate_and_connect_wrapped)
  have q: "receivers (w_namespace ?wr) (w_post ?wr) ?w = [quiet ''q'']"
    using decorate_and_connect_receivers(2) [of example_foo "''<module>''" "quiet ''p''" "quiet ''q''"]
    by (simp add: decorate_and_connect_wrapped)
  have a: "''action'' \<notin> dom [''b'' \<mapsto> PInt 2]" and r: "''result'' \<notin> dom [''b'' \<mapsto> PInt 2]"
    by simp_all
  have pq: "\<forall>kw. obs_run (quiet ''p'') PNone kw = None"
    "\<forall>kw. obs_run (quiet ''q'') (PTuple [PInt 1, PInt 2]) kw = None"
    by (simp_all add: quiet_def)
  show ?thesis
    using wrapper_pre_call_post [OF emit_signal_fresh p q a r py_call_foo pq]
    by (simp add: decorate_and_connect_trace quiet_def example_foo_def)
qed

text \<open>
  C1. One call of the wrapper is to run \<open>p\<close>, then the callable, then \<open>q\<close>, and to
  return what the callable returned; the docstring of \<^verbatim>\<open>emit_signal\<close> says the same
  (\<^verbatim>\<open>pre\<close> before, \<^verbatim>\<open>post\<close> after running the function). The wrapper does not do so
  for a call with a keyword of a name it uses itself. \<^verbatim>\<open>set_result(result=1)\<close> returns
  \<open>1\<close>, but \<^verbatim>\<open>send\<close> takes \<^verbatim>\<open>result\<close> out of the keywords before it binds them, so
  the binding misses a parameter; \<^verbatim>\<open>run(action=1)\<close> returns \<open>1\<close>, but the keyword meets
  the first parameter of \<^verbatim>\<open>send\<close>. Through the wrapper both calls end in
  \<^verbatim>\<open>TypeError\<close> with nothing run: neither observer and not the callable.
\<close>

theorem wrapper_keyword_collision:
  "py_call example_set_result [] [''result'' \<mapsto> PInt 1] = Inr (PInt 1)
   \<and> fst (wrapper (fst (decorate_and_connect example_set_result ''<module>'' (quiet ''p'') (quiet ''q'')))
          [] [''result'' \<mapsto> PInt 1]
          (snd (decorate_and_connect example_set_result ''<module>'' (quiet ''p'') (quiet ''q''))))
       = Inl TypeError
   \<and> trace (snd (wrapper (fst (decorate_and_connect example_set_result ''<module>'' (quiet ''p'') (quiet ''q'')))
          [] [''result'' \<mapsto> PInt 1]
          (snd (decorate_and_connect example_set_result ''<module>'' (quiet ''p'') (quiet ''q'')))))
       = []
   \<and> py_call example_run [] [''action'' \<mapsto> PInt 1] = Inr (PInt 1)
   \<and> fst (wrapper (fst (decorate_and_connect example_run ''<module>'' (quiet ''p'') (quiet ''q'')))
          [] [''action'' \<mapsto> PInt 1]
          (snd (decorate_and_connect example_run ''<module>'' (quiet ''p'') (quiet ''q''))))
       = Inl TypeError
   \<and> trace (snd (wrapper (fst (decorate_and_connect example_run ''<module>'' (quiet ''p'') (quiet ''q'')))
          [] [''action'' \<mapsto> PInt 1]
          (snd (decorate_and_connect example_run ''<module>'' (quiet ''p'') (quiet ''q'')))))
       = []"
proof -
  have c1: "py_call example_set_result [] [''result'' \<mapsto> PInt 1] = Inr (PInt 1)"
    by (auto simp: py_call_def getcallargs_def example_set_result_def Let_def dict_get_def)
  have c2: "py_call example_run [] [''action'' \<mapsto> PInt 1] = Inr (PInt 1)"
    by (auto simp: py_call_def getcallargs_def example_run_def Let_def dict_get_def)
  have g: "getcallargs example_set_result [] Map.empty = Inl TypeError"
    by (simp add: getcallargs_def example_set_result_def Let_def)
  have s1: "send_arguments (fst (decorate_and_connect example_set_result ''<module>'' (quiet ''p'') (quiet ''q'')))
              ''pre'' [] [''result'' \<mapsto> PInt 1] = Inl TypeError"
    by (simp add: send_arguments_def decorate_and_connect_wrapped Let_def g)
  have s2: "send_arguments (fst (decorate_and_connect example_run ''<module>'' (quiet ''p'') (quiet ''q'')))
              ''pre'' [] [''action'' \<mapsto> PInt 1] = Inl TypeError"
    by (simp add: send_arguments_def)
  show ?thesis
    by (simp add: c1 c2 wrapper_def send_def s1 s2 decorate_and_connect_trace)
qed

text \<open>
  C3. Let \<open>p\<close> be connected to \<^verbatim>\<open>fn.pre\<close>, after the observers \<open>before\<close>, which
  return. When \<open>p\<close> raises \<open>e\<close> on what the pre-dispatch of a call delivers, the
  wrapper ends with \<open>e\<close>, and the run holds the calls of \<open>before\<close> and of \<open>p\<close> and
  nothing else: \<open>fn\<close> is not called and nothing is dispatched to the post-observers.
\<close>

theorem pre_observer_raises:
  assumes made: "emit_signal sender namespace fn caller w0 = (wr, w1)"
      and connected: "receivers (w_namespace wr) (w_pre wr) w = before @ p # after"
      and dispatch: "send_arguments wr ''pre'' args kwargs = Inr (name, s, sendkw)"
      and before: "\<forall>x \<in> set before. obs_run x PNone sendkw = None"
      and p_raises: "obs_run p PNone sendkw = Some e"
  shows "fst (wrapper wr args kwargs w) = Inl e
         \<and> trace (snd (wrapper wr args kwargs w))
             = trace w @ map (\<lambda>x. Observed (obs_id x) PNone sendkw) before
                 @ [Observed (obs_id p) PNone sendkw]"
proof -
  have name: "name = w_pre wr" and s: "s = None"
    using send_arguments_pre_shape [OF dispatch] emit_signal_fields(3) [OF made] by simp_all
  have "send wr ''pre'' args kwargs w
          = (Inl e, (signal (w_namespace wr) name w)\<lparr>trace := trace w
               @ map (\<lambda>x. Observed (obs_id x) PNone sendkw) before
               @ [Observed (obs_id p) PNone sendkw]\<rparr>)"
    using send_first_raise [OF dispatch, of w before p after e] connected before p_raises
    by (simp add: name s)
  then show ?thesis
    by (simp add: wrapper_def)
qed

theorem pre_observer_raises_witness:
  "fst (wrapper (fst (decorate_and_connect example_foo ''<module>'' (failing ''p'' (Raised ''Boom'')) (quiet ''q'')))
          [PInt 1] [''b'' \<mapsto> PInt 2]
          (snd (decorate_and_connect example_foo ''<module>'' (failing ''p'' (Raised ''Boom'')) (quiet ''q''))))
     = Inl (Raised ''Boom'')
   \<and> trace (snd (wrapper (fst (decorate_and_connect example_foo ''<module>'' (failing ''p'' (Raised ''Boom'')) (quiet ''q'')))
          [PInt 1] [''b'' \<mapsto> PInt 2]
          (snd (decorate_and_connect example_foo ''<module>'' (failing ''p'' (Raised ''Boom'')) (quiet ''q'')))))
     = [Observed ''p'' PNone
          [''kwargs'' \<mapsto> PDict [''a'' \<mapsto> PInt 1, ''b'' \<mapsto> PInt 2],
           ''sender'' \<mapsto> PStr ''foo'',
           ''emitter'' \<mapsto> PFunc ''pkg.mod'' ''foo'']]"
proof -
  let ?p = "failing ''p'' (Raised ''Boom'')"
  let ?wr = "fst (decorate_and_connect example_foo ''<module>'' ?p (quiet ''q''))"
  let ?w = "snd (decorate_and_connect example_foo ''<module>'' ?p (quiet ''q''))"
  let ?sendkw = "[''kwargs'' \<mapsto> PDict [''a'' \<mapsto> PInt 1, ''b'' \<mapsto> PInt 2],
                  ''sender'' \<mapsto> PStr ''foo'', ''emitter'' \<mapsto> PFunc ''pkg.mod'' ''foo'']"
  have connected: "receivers (w_namespace ?wr) (w_pre ?wr) ?w = [] @ ?p # []"
    using decorate_and_connect_receivers(1) [of example_foo "''<module>''" ?p "quiet ''q''"]
    by (simp add: decorate_and_connect_wrapped)
  have before: "\<forall>x \<in> set []. obs_run x PNone ?sendkw = None" by simp
  have raises: "obs_run ?p PNone ?sendkw = Some (Raised ''Boom'')" by (simp add: failing_def)
  show ?thesis
    using pre_observer_raises [OF emit_signal_fresh connected send_arguments_foo before raises]
    by (simp add: decorate_and_connect_trace failing_def)
qed

text \<open>
  C4. When the pre-dispatch of a call has gone through and \<open>fn\<close> raises \<open>e\<close>, the
  wrapper ends with that same \<open>e\<close>, and the run ends with the call of \<open>fn\<close>: whatever
  is connected to \<^verbatim>\<open>fn.post\<close>, no post-observer is called.
\<close>

theorem callable_raises:
  assumes made: "emit_signal sender namespace fn caller w0 = (wr, w1)"
      and dispatch: "send_arguments wr ''pre'' args kwargs = Inr (name, s, sendkw)"
      and pre_return: "\<forall>x \<in> set (receivers (w_namespace wr) (w_pre wr) w). obs_run x PNone sendkw = None"
      and f_raises: "py_call fn args kwargs = Inl e"
  shows "fst (wrapper wr args kwargs w) = Inl e
         \<and> trace (snd (wrapper wr args kwargs w))
             = trace w
                 @ map (\<lambda>x. Observed (obs_id x) PNone sendkw) (receivers (w_namespace wr) (w_pre wr) w)
                 @ [Called (fn_module fn) (fn_name fn) args kwargs]"
proof -
  have name: "name = w_pre wr" and s: "s = None" and fn: "w_fn wr = fn"
    using send_arguments_pre_shape [OF dispatch] emit_signal_fields(1,3) [OF made] by simp_all
  have "send wr ''pre'' args kwargs w
          = (Inr (), (signal (w_namespace wr) name w)\<lparr>trace := trace w
               @ map (\<lambda>x. Observed (obs_id x) PNone sendkw) (receivers (w_namespace wr) name w)\<rparr>)"
    using send_all_return [OF dispatch, of w] pre_return by (simp add: name s)
  then show ?thesis
    using f_raises by (simp add: wrapper_def fn name Let_def)
qed

theorem callable_raises_witness:
  "\<exists>sendkw.
     fst (wrapper (fst (decorate_and_connect example_fail ''<module>'' (quiet ''p'') (quiet ''q'')))
          [PInt 1] Map.empty
          (snd (decorate_and_connect example_fail ''<module>'' (quiet ''p'') (quiet ''q''))))
       = Inl (ValueError ''no'')
     \<and> trace (snd (wrapper (fst (decorate_and_connect example_fail ''<module>'' (quiet ''p'') (quiet ''q'')))
          [PInt 1] Map.empty
          (snd (decorate_and_connect example_fail ''<module>'' (quiet ''p'') (quiet ''q'')))))
       = [Observed ''p'' PNone sendkw, Called ''pkg.mod'' ''fail'' [PInt 1] Map.empty]"
proof -
  let ?wr = "fst (decorate_and_connect example_fail ''<module>'' (quiet ''p'') (quiet ''q''))"
  let ?w = "snd (decorate_and_connect example_fail ''<module>'' (quiet ''p'') (quiet ''q''))"
  obtain sendkw where dispatch:
    "send_arguments ?wr ''pre'' [PInt 1] Map.empty = Inr (''pre_pkg.mod__fail'', None, sendkw)"
    using send_arguments_fail by blast
  have connected: "receivers (w_namespace ?wr) (w_pre ?wr) ?w = [quiet ''p'']"
    using decorate_and_connect_receivers(1) [of example_fail "''<module>''" "quiet ''p''" "quiet ''q''"]
    by (simp add: decorate_and_connect_wrapped)
  have pre_return: "\<forall>x \<in> set (receivers (w_namespace ?wr) (w_pre ?wr) ?w). obs_run x PNone sendkw = None"
    unfolding connected by (simp add: quiet_def)
  have f_raises: "py_call example_fail [PInt 1] Map.empty = Inl (ValueError ''no'')"
    by (simp add: py_call_def getcallargs_def example_fail_def Let_def)
  have "fst (wrapper ?wr [PInt 1] Map.empty ?w) = Inl (ValueError ''no'')
     \<and> trace (snd (wrapper ?wr [PInt 1] Map.empty ?w))
       = [Observed ''p'' PNone sendkw, Called ''pkg.mod'' ''fail'' [PInt 1] Map.empty]"
    using callable_raises [OF emit_signal_fresh dispatch pre_return f_raises, unfolded connected]
    by (simp add: decorate_and_connect_trace quiet_def example_fail_def)
  then show ?thesis by blast
qed

text \<open>
  What a dispatch delivers. For a call whose keywords are not named \<^verbatim>\<open>action\<close> or
  \<^verbatim>\<open>result\<close> and whose arguments bind to the parameters of the wrapped callable as
  \<open>callargs\<close>, the pre-dispatch and the post-dispatch hand the signal library the same
  keyword arguments: under \<^verbatim>\<open>kwargs\<close> the dictionary \<open>delivered\<close>, which gives every
  parameter name the value bound to it (and is exactly \<open>callargs\<close> when the callable
  has no \<^verbatim>\<open>**\<close> parameter; with one, the extra keywords of the call are kept beside
  it); as \<^verbatim>\<open>sender\<close> the callable's name; as \<^verbatim>\<open>emitter\<close> the value of \<^verbatim>\<open>self\<close>,
  else of \<^verbatim>\<open>cls\<close>, else the callable. The pre-dispatch passes no positional value, the
  post-dispatch passes the returned value \<open>r\<close>.
\<close>

lemma send_delivers_bound_arguments:
  fixes wr :: wrapped and kwargs callargs :: pydict
  defines "delivered \<equiv> kwargs ++ callargs"
  defines "sendkw \<equiv>
     [''kwargs'' \<mapsto> PDict delivered,
      ''sender'' \<mapsto> PStr (fn_name (w_fn wr)),
      ''emitter'' \<mapsto>
        dict_get delivered ''self''
          (dict_get delivered ''cls'' (PFunc (fn_module (w_fn wr)) (fn_name (w_fn wr))))]"
  assumes action: "''action'' \<notin> dom kwargs"
      and result: "''result'' \<notin> dom kwargs"
      and bound: "getcallargs (w_fn wr) args kwargs = Inr callargs"
  shows "send wr ''pre'' args kwargs w
           = signal_send (w_namespace wr) (''pre_'' @ w_fname wr) None sendkw w
         \<and> send wr ''post'' args (kwargs(''result'' \<mapsto> r)) w
           = signal_send (w_namespace wr) (''post_'' @ w_fname wr) (Some r) sendkw w
         \<and> (\<forall>k \<in> dom callargs. delivered k = callargs k)
         \<and> (fn_varkw (w_fn wr) = None \<longrightarrow> delivered = callargs)"
proof -
  have kw: "sendkw = [''kwargs'' \<mapsto> PDict (kwargs ++ callargs),
                   ''sender'' \<mapsto> PStr (fn_name (w_fn wr)),
                   ''emitter'' \<mapsto> dict_get (kwargs ++ callargs) ''self''
                      (dict_get (kwargs ++ callargs) ''cls''
                         (PFunc (fn_module (w_fn wr)) (fn_name (w_fn wr))))]"
    by (simp add: sendkw_def delivered_def)
  have "send wr ''pre'' args kwargs w
           = signal_send (w_namespace wr) (''pre_'' @ w_fname wr) None sendkw w"
    unfolding kw send_def by (simp only: send_arguments_pre [OF action result bound] sum.case prod.case)
  moreover have "send wr ''post'' args (kwargs(''result'' \<mapsto> r)) w
           = signal_send (w_namespace wr) (''post_'' @ w_fname wr) (Some r) sendkw w"
    unfolding kw send_def by (simp only: send_arguments_post [OF action result bound] sum.case prod.case)
  moreover have "\<forall>k \<in> dom callargs. delivered k = callargs k"
    by (auto simp: delivered_def map_add_def)
  moreover have "fn_varkw (w_fn wr) = None \<longrightarrow> delivered = callargs"
    using getcallargs_covers_keywords [OF bound] by (auto simp: delivered_def map_add_covered)
  ultimately show ?thesis by blast
qed

lemma send_delivers_bound_arguments_foo:
  "send (fst (decorate_and_connect example_foo ''<module>'' (quiet ''p'') (quiet ''q'')))
      ''pre'' [PInt 1] [''b'' \<mapsto> PInt 2]
      (snd (decorate_and_connect example_foo ''<module>'' (quiet ''p'') (quiet ''q'')))
     = signal_send GlobalNamespace ''pre_pkg.mod__foo'' None
         [''kwargs'' \<mapsto> PDict [''a'' \<mapsto> PInt 1, ''b'' \<mapsto> PInt 2],
          ''sender'' \<mapsto> PStr ''foo'',
          ''emitter'' \<mapsto> PFunc ''pkg.mod'' ''foo'']
         (snd (decorate_and_connect example_foo ''<module>'' (quiet ''p'') (quiet ''q'')))
   \<and> send (fst (decorate_and_connect example_foo ''<module>'' (quiet ''p'') (quiet ''q'')))
      ''post'' [PInt 1] [''b'' \<mapsto> PInt 2, ''result'' \<mapsto> PTuple [PInt 1, PInt 2]]
      (snd (decorate_and_connect example_foo ''<module>'' (quiet ''p'') (quiet ''q'')))
     = signal_send GlobalNamespace ''post_pkg.mod__foo'' (Some (PTuple [PInt 1, PInt 2]))
         [''kwargs'' \<mapsto> PDict [''a'' \<mapsto> PInt 1, ''b'' \<mapsto> PInt 2],
          ''sender'' \<mapsto> PStr ''foo'',
          ''emitter'' \<mapsto> PFunc ''pkg.mod'' ''foo'']
         (snd (decorate_and_connect example_foo ''<module>'' (quiet ''p'') (quiet ''q'')))"
proof -
  let ?wr = "fst (decorate_and_connect example_foo ''<module>'' (quiet ''p'') (quiet ''q''))"
  let ?w = "snd (decorate_and_connect example_foo ''<module>'' (quiet ''p'') (quiet ''q''))"
  have a: "''action'' \<notin> dom [''b'' \<mapsto> PInt 2]" and r: "''result'' \<notin> dom [''b'' \<mapsto> PInt 2]"
    by simp_all
  have bound: "getcallargs (w_fn ?wr) [PInt 1] [''b'' \<mapsto> PInt 2] = Inr [''a'' \<mapsto> PInt 1, ''b'' \<mapsto> PInt 2]"
    by (simp add: decorate_and_connect_wrapped getcallargs_foo)
  show ?thesis
    using send_delivers_bound_arguments [OF a r bound, of ?w "PTuple [PInt 1, PInt 2]"]
    by (simp add: foo_delivered decorate_and_connect_wrapped channel_base_def example_foo_def dict_get_def)
qed

text \<open>
  C5. Both dispatches are to deliver the arguments of the call bound to the parameter
  names; the docstring of \<^verbatim>\<open>emit_signal\<close> says the same (the arguments passed to the
  function). The code does not do so for a keyword named \<^verbatim>\<open>result\<close>:
  \<^verbatim>\<open>keep(1, result=5)\<close> for \<^verbatim>\<open>keep(a, **kw)\<close> binds \<^verbatim>\<open>kw = {"result": 5}\<close> and returns
  it, but both dispatches deliver \<^verbatim>\<open>{"a": 1, "kw": {}}\<close>, because \<^verbatim>\<open>send\<close> takes
  \<^verbatim>\<open>result\<close> out of the keywords before it binds them.
\<close>

theorem send_drops_result_keyword:
  "getcallargs example_keep [PInt 1] [''result'' \<mapsto> PInt 5]
     = Inr [''a'' \<mapsto> PInt 1, ''kw'' \<mapsto> PDict [''result'' \<mapsto> PInt 5]]
   \<and> py_call example_keep [PInt 1] [''result'' \<mapsto> PInt 5] = Inr (PDict [''result'' \<mapsto> PInt 5])
   \<and> send_arguments (fst (decorate_and_connect example_keep ''<module>'' (quiet ''p'') (quiet ''q'')))
        ''pre'' [PInt 1] [''result'' \<mapsto> PInt 5]
     = Inr (''pre_pkg.mod__keep'', None,
            [''kwargs'' \<mapsto> PDict [''a'' \<mapsto> PInt 1, ''kw'' \<mapsto> PDict Map.empty],
             ''sender'' \<mapsto> PStr ''keep'',
             ''emitter'' \<mapsto> PFunc ''pkg.mod'' ''keep''])
   \<and> send_arguments (fst (decorate_and_connect example_keep ''<module>'' (quiet ''p'') (quiet ''q'')))
        ''post'' [PInt 1] ([''result'' \<mapsto> PInt 5](''result'' \<mapsto> PDict [''result'' \<mapsto> PInt 5]))
     = Inr (''post_pkg.mod__keep'', Some (PDict [''result'' \<mapsto> PInt 5]),
            [''kwargs'' \<mapsto> PDict [''a'' \<mapsto> PInt 1, ''kw'' \<mapsto> PDict Map.empty],
             ''sender'' \<mapsto> PStr ''keep'',
             ''emitter'' \<mapsto> PFunc ''pkg.mod'' ''keep''])
   \<and> [''a'' \<mapsto> PInt 1, ''kw'' \<mapsto> PDict Map.empty]
       \<noteq> [''a'' \<mapsto> PInt 1, ''kw'' \<mapsto> PDict [''result'' \<mapsto> PInt 5]]"
proof -
  have g1: "getcallargs example_keep [PInt 1] [''result'' \<mapsto> PInt 5]
     = Inr [''a'' \<mapsto> PInt 1, ''kw'' \<mapsto> PDict [''result'' \<mapsto> PInt 5]]"
    by (auto simp: getcallargs_def example_keep_def Let_def fun_eq_iff map_add_def restrict_map_def)
  have g0: "getcallargs example_keep [PInt 1] Map.empty
     = Inr [''a'' \<mapsto> PInt 1, ''kw'' \<mapsto> PDict Map.empty]"
    by (auto simp: getcallargs_def example_keep_def Let_def fun_eq_iff map_add_def restrict_map_def)
  have c: "py_call example_keep [PInt 1] [''result'' \<mapsto> PInt 5] = Inr (PDict [''result'' \<mapsto> PInt 5])"
    by (simp add: py_call_def g1) (simp add: example_keep_def dict_get_def)
  have s1: "send_arguments (fst (decorate_and_connect example_keep ''<module>'' (quiet ''p'') (quiet ''q'')))
        ''pre'' [PInt 1] [''result'' \<mapsto> PInt 5]
     = Inr (''pre_pkg.mod__keep'', None,
            [''kwargs'' \<mapsto> PDict [''a'' \<mapsto> PInt 1, ''kw'' \<mapsto> PDict Map.empty],
             ''sender'' \<mapsto> PStr ''keep'',
             ''emitter'' \<mapsto> PFunc ''pkg.mod'' ''keep''])"
    by (simp add: send_arguments_def decorate_and_connect_wrapped g0 Let_def restrict_own_keys_add)
       (simp add: channel_base_def example_keep_def dict_get_def)
  have s2: "send_arguments (fst (decorate_and_connect example_keep ''<module>'' (quiet ''p'') (quiet ''q'')))
        ''post'' [PInt 1] ([''result'' \<mapsto> PInt 5](''result'' \<mapsto> PDict [''result'' \<mapsto> PInt 5]))
     = Inr (''post_pkg.mod__keep'', Some (PDict [''result'' \<mapsto> PInt 5]),
            [''kwargs'' \<mapsto> PDict [''a'' \<mapsto> PInt 1, ''kw'' \<mapsto> PDict Map.empty],
             ''sender'' \<mapsto> PStr ''keep'',
             ''emitter'' \<mapsto> PFunc ''pkg.mod'' ''keep''])"
    by (simp add: send_arguments_def decorate_and_connect_wrapped g0 Let_def restrict_own_keys_add)
       (simp add: channel_base_def example_keep_def dict_get_def)
  have ne: "[''a'' \<mapsto> PInt 1, ''kw'' \<mapsto> PDict Map.empty]
       \<noteq> [''a'' \<mapsto> PInt 1, ''kw'' \<mapsto> PDict [''result'' \<mapsto> PInt 5]]"
  proof
    assume "[''a'' \<mapsto> PInt 1, ''kw'' \<mapsto> PDict Map.empty]
       = [''a'' \<mapsto> PInt 1, ''kw'' \<mapsto> PDict [''result'' \<mapsto> PInt 5]]"
    then have "[''a'' \<mapsto> PInt 1, ''kw'' \<mapsto> PDict Map.empty] ''kw''
       = [''a'' \<mapsto> PInt 1, ''kw'' \<mapsto> PDict [''result'' \<mapsto> PInt 5]] ''kw''"
      by (rule arg_cong)
    then have "(Map.empty :: pydict) = [''result'' \<mapsto> PInt 5]" by simp
    then have "(Map.empty :: pydict) ''result'' = [''result'' \<mapsto> PInt 5] ''result''" by (rule arg_cong)
    then show False by simp
  qed
  show ?thesis using g1 c s1 s2 ne by blast
qed

text \<open>
  C2. Without an explicit sender, the base of the channel names of a callable with no
  parameter \<^verbatim>\<open>self\<close> or \<^verbatim>\<open>cls\<close> is its module, two underscores and its name; with
  such a parameter it is the module, one underscore, the name of the code object that
  runs the decoration, two underscores and the name. The two signals \<open>emit_signal\<close>
  stores as \<^verbatim>\<open>fn.pre\<close> and \<^verbatim>\<open>fn.post\<close> are named \<^verbatim>\<open>pre_\<close> and \<^verbatim>\<open>post_\<close> followed by
  that base, and both are in the namespace once the decoration is done. The witness is
  the example of the specification: \<^verbatim>\<open>pkg.mod__foo\<close> and \<^verbatim>\<open>pkg.mod_setup__bar\<close>.
\<close>

theorem channel_names:
  "(''self'' \<notin> set (fn_args fn) \<and> ''cls'' \<notin> set (fn_args fn) \<longrightarrow>
      channel_base None fn caller = fn_module fn @ ''__'' @ fn_name fn)
   \<and> (''self'' \<in> set (fn_args fn) \<or> ''cls'' \<in> set (fn_args fn) \<longrightarrow>
      channel_base None fn caller = fn_module fn @ ''_'' @ caller @ ''__'' @ fn_name fn)
   \<and> (emit_signal None namespace fn caller w = (wr, w') \<longrightarrow>
        w_pre wr = ''pre_'' @ channel_base None fn caller
        \<and> w_post wr = ''post_'' @ channel_base None fn caller
        \<and> namespaces w' (w_namespace wr) (w_pre wr) \<noteq> None
        \<and> namespaces w' (w_namespace wr) (w_post wr) \<noteq> None)"
proof -
  have plain: "''self'' \<notin> set (fn_args fn) \<and> ''cls'' \<notin> set (fn_args fn) \<longrightarrow>
      channel_base None fn caller = fn_module fn @ ''__'' @ fn_name fn"
    by (simp add: channel_base_def)
  have receiver: "''self'' \<in> set (fn_args fn) \<or> ''cls'' \<in> set (fn_args fn) \<longrightarrow>
      channel_base None fn caller = fn_module fn @ ''_'' @ caller @ ''__'' @ fn_name fn"
    by (simp add: channel_base_def)
  have registered: "w_pre wr = ''pre_'' @ channel_base None fn caller
        \<and> w_post wr = ''post_'' @ channel_base None fn caller
        \<and> namespaces w' (w_namespace wr) (w_pre wr) \<noteq> None
        \<and> namespaces w' (w_namespace wr) (w_post wr) \<noteq> None"
    if made: "emit_signal None namespace fn caller w = (wr, w')"
  proof -
    let ?ns = "resolve_namespace namespace w"
    let ?base = "channel_base None fn caller"
    have wr: "w_pre wr = ''pre_'' @ ?base" "w_post wr = ''post_'' @ ?base" "w_namespace wr = ?ns"
      using emit_signal_fields [OF made] by simp_all
    have w': "w' = signal ?ns (''post_'' @ ?base) (signal ?ns (''pre_'' @ ?base) w)"
      using made by (simp add: emit_signal_def decorator_def Let_def)
    have reg: "namespaces (signal ns n v) ns n \<noteq> None" for ns n v
      by (auto simp: signal_def split: option.splits)
    have keep: "namespaces v ns n \<noteq> None \<Longrightarrow> namespaces (signal ns m v) ns n \<noteq> None" for ns n m v
      by (auto simp: signal_def split: option.splits)
    have "namespaces w' ?ns (''pre_'' @ ?base) \<noteq> None"
      unfolding w' by (rule keep) (rule reg)
    moreover have "namespaces w' ?ns (''post_'' @ ?base) \<noteq> None"
      unfolding w' by (rule reg)
    ultimately show ?thesis
      by (simp only: wr) simp
  qed
  show ?thesis
    using plain receiver registered by blast
qed

theorem channel_names_witness:
  "channel_base None example_foo ''<module>'' = ''pkg.mod__foo''
   \<and> channel_base None example_bar ''setup'' = ''pkg.mod_setup__bar''
   \<and> w_pre (fst (emit_signal None None example_bar ''setup'' no_signals)) = ''pre_pkg.mod_setup__bar''
   \<and> w_post (fst (emit_signal None None example_bar ''setup'' no_signals)) = ''post_pkg.mod_setup__bar''
   \<and> namespaces (snd (emit_signal None None example_bar ''setup'' no_signals)) GlobalNamespace
        ''pre_pkg.mod_setup__bar'' \<noteq> None
   \<and> namespaces (snd (emit_signal None None example_bar ''setup'' no_signals)) GlobalNamespace
        ''post_pkg.mod_setup__bar'' \<noteq> None"
proof -
  let ?wr = "fst (emit_signal None None example_bar ''setup'' no_signals)"
  let ?w = "snd (emit_signal None None example_bar ''setup'' no_signals)"
  have plain: "''self'' \<notin> set (fn_args example_foo) \<and> ''cls'' \<notin> set (fn_args example_foo)"
    by (simp add: example_foo_def)
  have receiver: "''self'' \<in> set (fn_args example_bar) \<or> ''cls'' \<in> set (fn_args example_bar)"
    by (simp add: example_bar_def)
  have made: "emit_signal None None example_bar ''setup'' no_signals = (?wr, ?w)"
    by simp
  have ns: "w_namespace ?wr = GlobalNamespace"
    by (simp add: emit_signal_def decorator_def resolve_namespace_def Let_def)
  have foo: "channel_base None example_foo ''<module>'' = ''pkg.mod__foo''"
    using channel_names [of example_foo "''<module>''"] plain by (simp add: example_foo_def)
  have bar: "channel_base None example_bar ''setup'' = ''pkg.mod_setup__bar''"
    using channel_names [of example_bar "''setup''"] receiver by (simp add: example_bar_def)
  have all: "w_pre ?wr = ''pre_'' @ channel_base None example_bar ''setup''
        \<and> w_post ?wr = ''post_'' @ channel_base None example_bar ''setup''
        \<and> namespaces ?w (w_namespace ?wr) (w_pre ?wr) \<noteq> None
        \<and> namespaces ?w (w_namespace ?wr) (w_post ?wr) \<noteq> None"
    using channel_names [of example_bar "''setup''" None no_signals ?wr ?w] made by blast
  have pre: "w_pre ?wr = ''pre_pkg.mod_setup__bar''" and post: "w_post ?wr = ''post_pkg.mod_setup__bar''"
    using all by (simp_all add: bar)
  have r1: "namespaces ?w (w_namespace ?wr) (w_pre ?wr) \<noteq> None"
    and r2: "namespaces ?w (w_namespace ?wr) (w_post ?wr) \<noteq> None"
    using all by blast+
  show ?thesis
    using foo bar pre post r1 [unfolded pre ns] r2 [unfolded post ns] by blast
qed




section \<open>Uploading a file: the profile and the unbound name\<close>

text \<open>
  Up to its last statement \<^verbatim>\<open>upload_file\<close> does what its docstring says: a profile name
  that the configuration does not know ends in \<^verbatim>\<open>ValueError\<close>, and for a known one the
  keyword arguments of the upload are the properties of the profile updated by the
  keywords of the call.
\<close>

lemma upload_kwargs_profile:
  "((conf = None \<or> (\<exists>c. conf = Some c \<and> key \<notin> dom c)) \<longrightarrow>
      (\<exists>msg. upload_kwargs conf (Some key) kw = Inl (ValueError msg)))
   \<and> (\<forall>c props. conf = Some c \<and> c key = Some props \<longrightarrow>
        upload_kwargs conf (Some key) kw = Inr (props ++ kw))"
  by (auto simp: upload_kwargs_def split: option.splits)

lemma upload_file_never_uploads: "upload_file conf props_key file kw \<noteq> Inr v"
  by (simp add: upload_file_def split: sum.splits)

lemma asm_upload_file_two_arguments:
  "fst (asm_upload_file run [key, file] kwargs) = Inl TypeError"
  by (simp add: asm_upload_file_def emit_signal_def decorator_def Let_def wrapper_def send_def
      send_arguments_def getcallargs_def upload_file_change_def)


text \<open>
  C8. With the profile \<^verbatim>\<open>profile-image\<close> configured, the call
  \<^verbatim>\<open>upload_file("profile-image", "me.png", public=False)\<close> is to upload the file with
  the properties of the profile, \<^verbatim>\<open>public\<close> overridden. The function body computes
  these keyword arguments and then reads the name \<^verbatim>\<open>signals\<close>, which no statement of
  either module binds: the call raises \<^verbatim>\<open>NameError\<close> and nothing is uploaded. A
  configuration without \<^verbatim>\<open>STORAGE_UPLOAD_FILE_PROPS\<close> still ends in \<^verbatim>\<open>ValueError\<close>.
  In \<^verbatim>\<open>assembly/asm.py\<close> the name \<^verbatim>\<open>upload_file\<close> is bound a second time, to the wrapper
  of a function of one parameter, so the same call made through the module's name
  raises \<^verbatim>\<open>TypeError\<close>, whatever the configuration.
\<close>

theorem upload_file_unbound_signals:
  "upload_kwargs
      (Some [''profile-image'' \<mapsto> [''prefix'' \<mapsto> PStr ''/profile-image/'', ''public'' \<mapsto> PBool True]])
      (Some ''profile-image'') [''public'' \<mapsto> PBool False]
     = Inr [''prefix'' \<mapsto> PStr ''/profile-image/'', ''public'' \<mapsto> PBool False]
   \<and> upload_file
      (Some [''profile-image'' \<mapsto> [''prefix'' \<mapsto> PStr ''/profile-image/'', ''public'' \<mapsto> PBool True]])
      (Some ''profile-image'') (PStr ''me.png'') [''public'' \<mapsto> PBool False]
     = Inl (NameError ''signals'')
   \<and> upload_file None (Some ''profile-image'') (PStr ''me.png'') [''public'' \<mapsto> PBool False]
     = Inl (ValueError ''Missing STORAGE_UPLOAD_FILE_PROPS in config'')
   \<and> fst (asm_upload_file (\<lambda>change. Inr PNone) [PStr ''profile-image'', PStr ''me.png'']
            [''public'' \<mapsto> PBool False])
     = Inl TypeError"
proof -
  let ?props = "[''prefix'' \<mapsto> PStr ''/profile-image/'', ''public'' \<mapsto> PBool True]"
  let ?c = "[''profile-image'' \<mapsto> ?props]"
  have merged: "?props ++ [''public'' \<mapsto> PBool False]
          = [''prefix'' \<mapsto> PStr ''/profile-image/'', ''public'' \<mapsto> PBool False]"
    by (auto simp: fun_eq_iff map_add_def)
  have k: "upload_kwargs (Some ?c) (Some ''profile-image'') [''public'' \<mapsto> PBool False]
             = Inr [''prefix'' \<mapsto> PStr ''/profile-image/'', ''public'' \<mapsto> PBool False]"
    using upload_kwargs_profile [of "Some ?c" "''profile-image''" "[''public'' \<mapsto> PBool False]"]
    by (simp add: merged)
  have u: "upload_file (Some ?c) (Some ''profile-image'') (PStr ''me.png'') [''public'' \<mapsto> PBool False]
             = Inl (NameError ''signals'')"
    by (simp add: upload_file_def k)
  have n: "upload_file None (Some ''profile-image'') (PStr ''me.png'') [''public'' \<mapsto> PBool False]
     = Inl (ValueError ''Missing STORAGE_UPLOAD_FILE_PROPS in config'')"
    by (simp add: upload_file_def upload_kwargs_def)
  show ?thesis
    using k u n asm_upload_file_two_arguments by blast
qed

section \<open>Signed tokens: the round trip and the choice of the verification\<close>

lemma py_split_not_empty: "py_split sep s \<noteq> []"
  by (induction s) (auto split: list.splits)

lemma length_py_split: "length (py_split sep s) = Suc (count_list s sep)"
proof (induction s)
  case Nil
  show ?case by simp
next
  case (Cons c cs)
  then show ?case
    using py_split_not_empty [of sep cs] by (cases "py_split sep cs") auto
qed















text \<open>
  C10. \<open>unsign_data\<close> has the token as its only argument next to the clock, and the
  token's shape alone selects the verification: the token has three segments between
  dots, that is exactly two dots, if and only if the timed serializer reads it and its
  time is compared with the clock; any other token is read by the untimed serializer,
  and then the result does not depend on the clock.
\<close>

theorem unsign_data_mode_by_shape:
  "(length (py_split CHR ''.'' token) = 3 \<longleftrightarrow> count_list token CHR ''.'' = 2)
   \<and> (length (py_split CHR ''.'' token) = 3 \<longrightarrow>
        unsign_data c z now token
          = (case URLSafeTimedSerializer2_loads c z token of
               Inl e \<Rightarrow> Inl e
             | Inr (v, timestamp) \<Rightarrow> if timestamp > now then Inr v else Inl SignatureExpired))
   \<and> (length (py_split CHR ''.'' token) \<noteq> 3 \<longrightarrow>
        unsign_data c z now token = URLSafeSerializer_loads c token
        \<and> unsign_data c z now' token = unsign_data c z now token)"
proof -
  have "length (py_split CHR ''.'' token) = 3 \<longleftrightarrow> count_list token CHR ''.'' = 2"
    by (simp add: length_py_split)
  then show ?thesis
    by (simp add: unsign_data_def)
qed

theorem unsign_data_mode_by_shape_witness:
  "length (py_split CHR ''.'' ''p.t.s'') = 3
   \<and> unsign_data (example_codec False) example_zone 0 ''p.t.s''
       = (case URLSafeTimedSerializer2_loads (example_codec False) example_zone ''p.t.s'' of
            Inl e \<Rightarrow> Inl e
          | Inr (v, timestamp) \<Rightarrow> if timestamp > 0 then Inr v else Inl SignatureExpired)
   \<and> length (py_split CHR ''.'' ''p.s'') = 2
   \<and> unsign_data (example_codec False) example_zone 0 ''p.s''
       = URLSafeSerializer_loads (example_codec False) ''p.s''
   \<and> length (py_split CHR ''.'' ''.p.t.s'') = 4
   \<and> unsign_data (example_codec False) example_zone 0 ''.p.t.s''
       = URLSafeSerializer_loads (example_codec False) ''.p.t.s''"
proof -
  have l3: "length (py_split CHR ''.'' ''p.t.s'') = 3" by simp
  have l2: "length (py_split CHR ''.'' ''p.s'') = 2" by simp
  have l4: "length (py_split CHR ''.'' ''.p.t.s'') = 4" by simp
  show ?thesis
    using unsign_data_mode_by_shape [of "''p.t.s''" "example_codec False" example_zone 0]
      unsign_data_mode_by_shape [of "''p.s''" "example_codec False" example_zone 0]
      unsign_data_mode_by_shape [of "''.p.t.s''" "example_codec False" example_zone 0]
      l3 l2 l4
    by simp
qed

end
